theory Spec2Isabelle
  imports Main
begin

section \<open>The demo validators of NewForm\<close>

text \<open>
  A JavaScript string is modelled as a \<open>string\<close>; the validators look only at
  \<open>value.length\<close>, which is the length of the list. The result type
  \<open>string | null\<close> is \<open>string option\<close>, with \<open>None\<close> for \<open>null\<close>.

  \<^verbatim>\<open>
  const validateUsername = (value: string) => {
    if (value.length > 0 && value.length < 7) {
      return 'Username must be at least 7 characters long';
    }
    return null;
  };
  \<close>
\<close>

definition validateUsername :: "string \<Rightarrow> string option" where
  "validateUsername v =
     (if length v > 0 \<and> length v < 7
      then Some ''Username must be at least 7 characters long''
      else None)"

definition validatePassword :: "string \<Rightarrow> string option" where
  "validatePassword v =
     (if length v > 0 \<and> length v < 8
      then Some ''Password must be at least 8 characters long''
      else None)"

section \<open>InputField\<close>

text \<open>
  The props the component reads: the optional \<open>validate\<close> function, the optional
  \<open>initialValue\<close> (default \<open>''\<close>) and the optional \<open>onChange\<close> callback. The
  callback is opaque to the component, so the model keeps whether it was passed
  (\<open>onChange\<close>) and records each invocation in a trace of calls.
\<close>

record InputFieldProps =
  validate :: "(string \<Rightarrow> string option) option"
  initialValue :: "string option"
  onChange :: bool

text \<open>The two state cells of the component: \<open>value\<close> and \<open>error\<close>.\<close>

record InputFieldState =
  value_s :: string
  error_s :: "string option"

text \<open>The calls a handler makes to the functions it was given.\<close>

datatype call = Call_onChange string | Call_validate string

text \<open>\<open>useState(initialValue)\<close> and \<open>useState<string | null>(null)\<close>.\<close>

definition mount :: "InputFieldProps \<Rightarrow> InputFieldState" where
  "mount p =
     \<lparr>value_s = (case initialValue p of None \<Rightarrow> [] | Some v \<Rightarrow> v), error_s = None\<rparr>"

text \<open>
  \<^verbatim>\<open>
  const newValue = e.target.value;
  setValue(newValue);
  onChange?.(newValue);
  \<close>
\<close>

definition handleChange ::
  "InputFieldProps \<Rightarrow> string \<Rightarrow> InputFieldState \<Rightarrow> InputFieldState \<times> call list" where
  "handleChange p newValue s =
     (s\<lparr>value_s := newValue\<rparr>, if onChange p then [Call_onChange newValue] else [])"

text \<open>
  \<^verbatim>\<open>
  if (validate) {
    const errorMessage = validate(value);
    setError(errorMessage);
  }
  \<close>
\<close>

definition handleBlur :: "InputFieldProps \<Rightarrow> InputFieldState \<Rightarrow> InputFieldState \<times> call list" where
  "handleBlur p s =
     (case validate p of
        None \<Rightarrow> (s, [])
      | Some f \<Rightarrow> (s\<lparr>error_s := f (value_s s)\<rparr>, [Call_validate (value_s s)]))"

text \<open>
  The render shows \<open>{error && <p>...{error}</p>}\<close>: a message appears when
  \<open>error\<close> is neither \<open>null\<close> nor the empty string.
\<close>

definition shownError :: "InputFieldState \<Rightarrow> string option" where
  "shownError s =
     (case error_s s of None \<Rightarrow> None | Some m \<Rightarrow> if m = [] then None else Some m)"

text \<open>The events the rendered input delivers, and a field run over a list of them.\<close>

datatype field_event = Change string | Blur

fun fire :: "InputFieldProps \<Rightarrow> field_event \<Rightarrow> InputFieldState \<Rightarrow> InputFieldState \<times> call list" where
  "fire p (Change v) s = handleChange p v s"
| "fire p Blur s = handleBlur p s"

fun run :: "InputFieldProps \<Rightarrow> field_event list \<Rightarrow> InputFieldState \<Rightarrow> InputFieldState \<times> call list" where
  "run p [] s = (s, [])"
| "run p (e # es) s =
     (case fire p e s of (s1, c1) \<Rightarrow> (case run p es s1 of (s2, c2) \<Rightarrow> (s2, c1 @ c2)))"

text \<open>Reading a trace: the values the validator was run on, and those passed to \<open>onChange\<close>.\<close>

fun validatorRuns :: "call list \<Rightarrow> string list" where
  "validatorRuns [] = []"
| "validatorRuns (Call_validate v # cs) = v # validatorRuns cs"
| "validatorRuns (Call_onChange v # cs) = validatorRuns cs"

fun onChangeCalls :: "call list \<Rightarrow> string list" where
  "onChangeCalls [] = []"
| "onChangeCalls (Call_onChange v # cs) = v # onChangeCalls cs"
| "onChangeCalls (Call_validate v # cs) = onChangeCalls cs"

text \<open>
  What an event list says by itself, with no reference to the handlers: the values it
  changes the field to, the value the field holds at each blur (\<open>cur\<close> is the value
  held before the first event), and the value held at the most recent blur
  (\<open>prev\<close> is the answer when the list has no blur).
\<close>

fun changedValues :: "field_event list \<Rightarrow> string list" where
  "changedValues [] = []"
| "changedValues (Change v # es) = v # changedValues es"
| "changedValues (Blur # es) = changedValues es"

fun blurValues :: "string \<Rightarrow> field_event list \<Rightarrow> string list" where
  "blurValues cur [] = []"
| "blurValues cur (Change v # es) = blurValues v es"
| "blurValues cur (Blur # es) = cur # blurValues cur es"

fun valueAtLastBlur :: "string \<Rightarrow> string option \<Rightarrow> field_event list \<Rightarrow> string option" where
  "valueAtLastBlur cur prev [] = prev"
| "valueAtLastBlur cur prev (Change v # es) = valueAtLastBlur v prev es"
| "valueAtLastBlur cur prev (Blur # es) = valueAtLastBlur cur (Some cur) es"

section \<open>OldForm\<close>

text \<open>
  The four \<open>useState\<close> cells of the component. Both error cells hold a string; the
  empty string stands for no error.
\<close>

record OldFormState =
  username :: string
  password :: string
  usernameError :: string
  passwordError :: string

definition OldForm_init :: OldFormState where
  "OldForm_init = \<lparr>username = [], password = [], usernameError = [], passwordError = []\<rparr>"

text \<open>
  What a submit handler does to the outside: \<open>e.preventDefault()\<close> and
  \<open>console.log(...)\<close> with its arguments, a string or the object of form data.
\<close>

datatype log_arg = Str string | Obj "(string \<times> string) list"

datatype effect = PreventDefault | ConsoleLog "log_arg list"

text \<open>
  A handler is a closure over the state \<open>s\<close> of the render that created it; its
  \<open>set...\<close> calls are applied in order to the state \<open>st\<close> that the next render
  sees. The validators of OldForm return nothing and write the error cell.
  \<^verbatim>\<open>
  const validateUsername = (value: string) => {
    if (value.length > 0 && value.length < 7) {
      setUsernameError('Username must be at least 7 characters long');
    } else {
      setUsernameError('');
    }
  };
  \<close>
\<close>

definition validateUsername_Old :: "string \<Rightarrow> OldFormState \<Rightarrow> OldFormState" where
  "validateUsername_Old v st =
     (if length v > 0 \<and> length v < 7
      then st\<lparr>usernameError := ''Username must be at least 7 characters long''\<rparr>
      else st\<lparr>usernameError := []\<rparr>)"

definition validatePassword_Old :: "string \<Rightarrow> OldFormState \<Rightarrow> OldFormState" where
  "validatePassword_Old v st =
     (if length v > 0 \<and> length v < 8
      then st\<lparr>passwordError := ''Password must be at least 8 characters long''\<rparr>
      else st\<lparr>passwordError := []\<rparr>)"

definition handleUsernameChange :: "string \<Rightarrow> OldFormState \<Rightarrow> OldFormState" where
  "handleUsernameChange v s = validateUsername_Old v (s\<lparr>username := v\<rparr>)"

text \<open>
  \<^verbatim>\<open>
  setPassword(value);
  // Only validate if there was an error and the user is typing
  if (passwordError) {
    validatePassword(value);
  }
  \<close>
\<close>

definition handlePasswordChange :: "string \<Rightarrow> OldFormState \<Rightarrow> OldFormState" where
  "handlePasswordChange v s =
     (let st = s\<lparr>password := v\<rparr> in
      if passwordError s \<noteq> [] then validatePassword_Old v st else st)"

text \<open>
  The two blur handlers are defined by the component, but its inputs carry no
  \<open>onBlur\<close> attribute, so no event reaches them.
\<close>

definition handleUsernameBlur :: "OldFormState \<Rightarrow> OldFormState" where
  "handleUsernameBlur s = validateUsername_Old (username s) s"

definition handlePasswordBlur :: "OldFormState \<Rightarrow> OldFormState" where
  "handlePasswordBlur s = validatePassword_Old (password s) s"

text \<open>
  \<^verbatim>\<open>
  e.preventDefault();
  // Validate both fields on submit
  validateUsername(username);
  validatePassword(password);
  // Don't submit if there are any errors
  if (usernameError || passwordError || username.length < 7 || password.length < 8) {
    return;
  }
  console.log(username, password);
  setUsername(''); setPassword(''); setUsernameError(''); setPasswordError('');
  \<close>
  The guard reads the closure: the error cells as they were before this call.
\<close>

definition handleSubmit_Old :: "OldFormState \<Rightarrow> OldFormState \<times> effect list" where
  "handleSubmit_Old s =
     (let st = validatePassword_Old (password s) (validateUsername_Old (username s) s) in
      if usernameError s \<noteq> [] \<or> passwordError s \<noteq> []
         \<or> length (username s) < 7 \<or> length (password s) < 8
      then (st, [PreventDefault])
      else (st\<lparr>username := [], password := [], usernameError := [], passwordError := []\<rparr>,
            [PreventDefault, ConsoleLog [Str (username s), Str (password s)]]))"

text \<open>The events the rendered form delivers, and the form run over a list of them.\<close>

datatype oldform_event = UsernameChange string | PasswordChange string | Submit

fun fire_Old :: "oldform_event \<Rightarrow> OldFormState \<Rightarrow> OldFormState \<times> effect list" where
  "fire_Old (UsernameChange v) s = (handleUsernameChange v s, [])"
| "fire_Old (PasswordChange v) s = (handlePasswordChange v s, [])"
| "fire_Old Submit s = handleSubmit_Old s"

fun run_Old :: "oldform_event list \<Rightarrow> OldFormState \<Rightarrow> OldFormState \<times> effect list" where
  "run_Old [] s = (s, [])"
| "run_Old (e # es) s =
     (case fire_Old e s of (s1, x1) \<Rightarrow> (case run_Old es s1 of (s2, x2) \<Rightarrow> (s2, x1 @ x2)))"

text \<open>
  What holds of the cells between events: the username error is always the verdict on
  the current username (every change validates it), and the password error, which a
  change re-validates only while it is set, is either empty or the verdict on a
  password of 1 to 7 characters.
\<close>

definition OldForm_inv :: "OldFormState \<Rightarrow> bool" where
  "OldForm_inv s =
     (usernameError s =
        (if length (username s) > 0 \<and> length (username s) < 7
         then ''Username must be at least 7 characters long'' else [])
      \<and> (passwordError s = []
         \<or> (passwordError s = ''Password must be at least 8 characters long''
            \<and> length (password s) > 0 \<and> length (password s) < 8)))"

section \<open>NewForm\<close>

text \<open>
  The form renders two InputField components, named \<open>username\<close> and \<open>password\<close>,
  each with its validator and neither with \<open>initialValue\<close> or \<open>onChange\<close>. The
  form keeps no state of its own; what changes over time is the state of its fields.
\<close>

definition usernameProps :: InputFieldProps where
  "usernameProps = \<lparr>validate = Some validateUsername, initialValue = None, onChange = False\<rparr>"

definition passwordProps :: InputFieldProps where
  "passwordProps = \<lparr>validate = Some validatePassword, initialValue = None, onChange = False\<rparr>"

record NewFormState =
  usernameField :: InputFieldState
  passwordField :: InputFieldState

definition NewForm_mount :: NewFormState where
  "NewForm_mount = \<lparr>usernameField = mount usernameProps, passwordField = mount passwordProps\<rparr>"

text \<open>
  \<^verbatim>\<open>
  e.preventDefault();
  const formData = new FormData(e.currentTarget);
  const data = {
    username: formData.get('username') as string,
    password: formData.get('password') as string,
  };
  console.log('Form submitted with data:', data);
  \<close>
  The form data are the current values of the two inputs. No field is written.
\<close>

definition handleSubmit_New :: "NewFormState \<Rightarrow> NewFormState \<times> effect list" where
  "handleSubmit_New s =
     (s, [PreventDefault,
          ConsoleLog [Str ''Form submitted with data:'',
                      Obj [(''username'', value_s (usernameField s)),
                           (''password'', value_s (passwordField s))]]])"

datatype newform_event = UsernameEvent field_event | PasswordEvent field_event | SubmitEvent

fun fire_New :: "newform_event \<Rightarrow> NewFormState \<Rightarrow> NewFormState \<times> effect list" where
  "fire_New (UsernameEvent e) s = (s\<lparr>usernameField := fst (fire usernameProps e (usernameField s))\<rparr>, [])"
| "fire_New (PasswordEvent e) s = (s\<lparr>passwordField := fst (fire passwordProps e (passwordField s))\<rparr>, [])"
| "fire_New SubmitEvent s = handleSubmit_New s"

fun run_New :: "newform_event list \<Rightarrow> NewFormState \<Rightarrow> NewFormState \<times> effect list" where
  "run_New [] s = (s, [])"
| "run_New (e # es) s =
     (case fire_New e s of (s1, x1) \<Rightarrow> (case run_New es s1 of (s2, x2) \<Rightarrow> (s2, x1 @ x2)))"

section \<open>combineValidators\<close>

text \<open>
  The failure record of README.md: \<open>reason\<close>, \<open>error\<close> (\<open>null\<close> unless the
  predicate threw) and \<open>meta\<close>, an object from names to values.
\<close>

record 'r ValidationFailure =
  reason :: 'r
  error :: "string option"
  meta :: "string \<rightharpoonup> string"

text \<open>
  README.md describes \<open>combineValidators\<close> and its form template calls it, but the
  file that defines it (\<open>src/utils/validation\<close>) is not among the sources. The
  definitions of this section follow the description: a map from record key to
  Validator is an association list in the declared key order, a record is a map from
  key to value, and an absent key is validated as \<open>undefined\<close>, here \<open>None\<close>.
\<close>

text \<open>
  Modelled from the spec: the stamping that \<open>combineValidators\<close> (source missing)
  applies to each failure, \<open>meta.field = key\<close>, merged into the meta the failure
  already has.
\<close>

definition stamp :: "string \<Rightarrow> 'r ValidationFailure \<Rightarrow> 'r ValidationFailure" where
  "stamp key f = f\<lparr>meta := (meta f)(''field'' \<mapsto> key)\<rparr>"

text \<open>
  Modelled from the spec: the Validator that \<open>combineValidators\<close> (source missing)
  returns. For a record value it runs each key's Validator against \<open>record[key]\<close>,
  keys iterated in the map's declared order, and concatenates the resulting failures,
  each stamped with its key.
\<close>

fun runFieldValidators ::
  "(string \<times> ('v option \<Rightarrow> 'r ValidationFailure list)) list \<Rightarrow> (string \<rightharpoonup> 'v)
     \<Rightarrow> 'r ValidationFailure list" where
  "runFieldValidators [] r = []"
| "runFieldValidators ((key, V) # kvs) r = map (stamp key) (V (r key)) @ runFieldValidators kvs r"

text \<open>
  Modelled from the spec: the result of \<open>combineValidators\<close> (source missing) is that
  Validator together with the original map of per-key Validators, which it exposes.
\<close>

record ('v, 'r) CombinedValidator =
  validateRecord :: "(string \<rightharpoonup> 'v) \<Rightarrow> 'r ValidationFailure list"
  fieldValidators :: "(string \<times> ('v option \<Rightarrow> 'r ValidationFailure list)) list"

text \<open>
  Modelled from the spec: \<open>combineValidators\<close> itself, whose source
  (\<open>src/utils/validation\<close>) is missing.
\<close>

definition combineValidators ::
  "(string \<times> ('v option \<Rightarrow> 'r ValidationFailure list)) list \<Rightarrow> ('v, 'r) CombinedValidator" where
  "combineValidators fieldValidatorMap =
     \<lparr>validateRecord = runFieldValidators fieldValidatorMap,
      fieldValidators = fieldValidatorMap\<rparr>"

text \<open>
  Modelled from the spec: reading one per-key Validator off the result of
  \<open>combineValidators\<close> (source missing), as in \<open>validateForm.field1\<close> of the template.
\<close>

definition fieldValidator ::
  "('v, 'r) CombinedValidator \<Rightarrow> string \<Rightarrow> ('v option \<Rightarrow> 'r ValidationFailure list) option" where
  "fieldValidator cv key = map_of (fieldValidators cv) key"

section \<open>The form template of README.md\<close>

text \<open>
  The state the template's \<open>handleSubmit\<close> reads and writes: \<open>formValues\<close>,
  \<open>formErrors.raw\<close> (\<open>formErrors.summary\<close> is computed from it and is left out),
  the toggles \<open>isSubmitting\<close> and \<open>wasSubmitted\<close>, and \<open>formApi\<close>, of which the
  handler only asks whether a field has published its API.
\<close>

record ('v, 'r) TemplateFormState =
  formValues :: "string \<rightharpoonup> 'v"
  formErrorsRaw :: "'r ValidationFailure list"
  isSubmitting :: bool
  wasSubmitted :: bool
  formApi :: "string \<Rightarrow> bool"

text \<open>The calls the handler makes to the parent's props, the fields' APIs and the event.\<close>

datatype ('v, 'r, 'e) form_call =
    Call_onFormValidityChange "'r ValidationFailure list"
  | Call_setFieldErrors string "'r ValidationFailure list"
  | Call_onDataSubmit "'r ValidationFailure list" "string \<rightharpoonup> 'v" 'e
  | Call_preventDefault

text \<open>
  \<^verbatim>\<open>
  Object.entries(groupedFailures).forEach(([field, failures]) => {
      const fieldApi = formApi[field as keyof MyFormData];
      if (fieldApi) {
          fieldApi.setFieldErrors(failures);
      }
  });
  \<close>
\<close>

fun fanOut ::
  "(string \<Rightarrow> bool) \<Rightarrow> (string \<times> 'r ValidationFailure list) list \<Rightarrow> ('v, 'r, 'e) form_call list" where
  "fanOut api [] = []"
| "fanOut api ((field, failures) # gs) =
     (if api field then [Call_setFieldErrors field failures] else []) @ fanOut api gs"

text \<open>
  \<^verbatim>\<open>
  startFormSubmit();
  const validationResults = validateForm(formValues);
  if (!deepEqual(formErrors.raw, validationResults)) {
      onFormValidityChange(validationResults);
  }
  setFormErrors(validationResults);
  formWasSubmitted();
  const groupedFailures = groupBy(validationResults, ({ meta: { field } }) => field);
  Object.entries(groupedFailures).forEach(...);
  onDataSubmit(validationResults, formValues, ev);
  ev.preventDefault();
  \<close>
  The form's Validator \<open>validateForm\<close> is a parameter, and so are the entries of the
  grouping (\<open>groupBy\<close> is a library function that is not among the sources);
  \<open>deepEqual\<close> is equality of the two failure lists.
\<close>

definition handleSubmit_template ::
  "((string \<rightharpoonup> 'v) \<Rightarrow> 'r ValidationFailure list)
   \<Rightarrow> ('r ValidationFailure list \<Rightarrow> (string \<times> 'r ValidationFailure list) list)
   \<Rightarrow> 'e \<Rightarrow> ('v, 'r) TemplateFormState
   \<Rightarrow> ('v, 'r) TemplateFormState \<times> ('v, 'r, 'e) form_call list" where
  "handleSubmit_template validateForm groupedEntries ev s =
     (let validationResults = validateForm (formValues s) in
      (s\<lparr>isSubmitting := True, formErrorsRaw := validationResults, wasSubmitted := True\<rparr>,
       (if formErrorsRaw s \<noteq> validationResults
        then [Call_onFormValidityChange validationResults] else [])
       @ fanOut (formApi s) (groupedEntries validationResults)
       @ [Call_onDataSubmit validationResults (formValues s) ev, Call_preventDefault]))"

text \<open>The arguments of the \<open>onDataSubmit\<close> calls in a trace.\<close>

fun dataSubmits ::
  "('v, 'r, 'e) form_call list \<Rightarrow> ('r ValidationFailure list \<times> (string \<rightharpoonup> 'v) \<times> 'e) list" where
  "dataSubmits [] = []"
| "dataSubmits (Call_onDataSubmit res vals ev # cs) = (res, vals, ev) # dataSubmits cs"
| "dataSubmits (Call_onFormValidityChange res # cs) = dataSubmits cs"
| "dataSubmits (Call_setFieldErrors field failures # cs) = dataSubmits cs"
| "dataSubmits (Call_preventDefault # cs) = dataSubmits cs"

section \<open>Example inputs\<close>

text \<open>
  The rules \<open>required\<close> and \<open>exactly five digits\<close> in the shape the \<open>validate\<close>
  prop of InputField has: the first failing rule's message, or \<open>null\<close>. It is an
  input for the examples below, not part of the components.
\<close>

definition isDigit :: "char \<Rightarrow> bool" where
  "isDigit c = (c \<in> set ''0123456789'')"

definition zipValidate :: "string \<Rightarrow> string option" where
  "zipValidate v =
     (if v = [] then Some ''Required''
      else if length v = 5 \<and> list_all isDigit v then None
      else Some ''Must be 5 digits'')"

definition zipProps :: InputFieldProps where
  "zipProps = \<lparr>validate = Some zipValidate, initialValue = None, onChange = True\<rparr>"

text \<open>
  Two Validators for the example \<open>combineValidators({a: Va, b: Vb})\<close>: \<open>exampleVa\<close>
  reports one failure on every input and \<open>exampleVb\<close> accepts every input.
\<close>

definition exampleVa :: "string option \<Rightarrow> string ValidationFailure list" where
  "exampleVa v = [\<lparr>reason = ''a is not valid'', error = None, meta = Map.empty\<rparr>]"

definition exampleVb :: "string option \<Rightarrow> string ValidationFailure list" where
  "exampleVb v = []"

section \<open>Properties of the validators\<close>

text \<open>
  C10. Both demo validators accept the empty string: \<open>validateUsername\<close> and
  \<open>validatePassword\<close> return \<open>null\<close> on \<open>''\<close>. So a field of NewForm that is
  left empty shows no error when it is blurred: the validators do not enforce that a
  value is required.
\<close>

theorem validators_accept_empty:
  "validateUsername [] = None
   \<and> validatePassword [] = None
   \<and> shownError (fst (handleBlur usernameProps (mount usernameProps))) = None
   \<and> shownError (fst (handleBlur passwordProps (mount passwordProps))) = None"
  by (simp add: validateUsername_def validatePassword_def shownError_def handleBlur_def
      mount_def usernameProps_def passwordProps_def)

section \<open>Properties of InputField\<close>

lemma run_Cons_fst: "fst (run p (e # es) s) = fst (run p es (fst (fire p e s)))"
  by (simp split: prod.splits)

lemma run_Cons_snd:
  "snd (run p (e # es) s) = snd (fire p e s) @ snd (run p es (fst (fire p e s)))"
  by (simp split: prod.splits)

lemma handleChange_fst: "fst (handleChange p v s) = s\<lparr>value_s := v\<rparr>"
  by (simp add: handleChange_def)

lemma handleChange_snd:
  "snd (handleChange p v s) = (if onChange p then [Call_onChange v] else [])"
  by (simp add: handleChange_def)

lemma handleBlur_fst:
  "fst (handleBlur p s) =
     (case validate p of None \<Rightarrow> s | Some f \<Rightarrow> s\<lparr>error_s := f (value_s s)\<rparr>)"
  by (simp add: handleBlur_def split: option.splits)

lemma handleBlur_snd:
  "snd (handleBlur p s) =
     (case validate p of None \<Rightarrow> [] | Some f \<Rightarrow> [Call_validate (value_s s)])"
  by (simp add: handleBlur_def split: option.splits)

lemma validatorRuns_append: "validatorRuns (xs @ ys) = validatorRuns xs @ validatorRuns ys"
  by (induction xs rule: validatorRuns.induct) auto

lemma onChangeCalls_append: "onChangeCalls (xs @ ys) = onChangeCalls xs @ onChangeCalls ys"
  by (induction xs rule: onChangeCalls.induct) auto

text \<open>A blur met earlier is forgotten as soon as the rest of the list has one.\<close>

lemma valueAtLastBlur_prev:
  "valueAtLastBlur cur prev es =
     (case valueAtLastBlur cur None es of None \<Rightarrow> prev | Some v \<Rightarrow> Some v)"
proof (induction es arbitrary: cur prev)
  case Nil
  show ?case by simp
next
  case (Cons e es)
  show ?case
  proof (cases e)
    case (Change v)
    then show ?thesis using Cons.IH [of v prev] by simp
  next
    case Blur
    then show ?thesis
      using Cons.IH [of cur "Some cur"]
      by (simp split: option.splits)
  qed
qed

lemma run_error:
  assumes "validate p = Some f"
  shows "error_s (fst (run p es s)) =
     (case valueAtLastBlur (value_s s) None es of None \<Rightarrow> error_s s | Some v \<Rightarrow> f v)"
proof (induction es arbitrary: s)
  case Nil
  show ?case by simp
next
  case (Cons e es)
  show ?case
  proof (cases e)
    case (Change v)
    then show ?thesis using Cons.IH [of "s\<lparr>value_s := v\<rparr>"]
      by (simp only: run_Cons_fst fire.simps handleChange_fst valueAtLastBlur.simps)
         (simp split: option.splits)
  next
    case Blur
    have "valueAtLastBlur (value_s s) (Some (value_s s)) es =
       (case valueAtLastBlur (value_s s) None es of
          None \<Rightarrow> Some (value_s s) | Some v \<Rightarrow> Some v)"
      by (rule valueAtLastBlur_prev)
    then show ?thesis
      using Blur Cons.IH [of "s\<lparr>error_s := f (value_s s)\<rparr>"] assms
      by (simp only: run_Cons_fst fire.simps handleBlur_fst valueAtLastBlur.simps)
         (simp split: option.splits)
  qed
qed

lemma run_error_no_validator:
  "validate p = None \<Longrightarrow> error_s (fst (run p es s)) = error_s s"
proof (induction es arbitrary: s)
  case Nil
  show ?case by simp
next
  case (Cons e es)
  show ?case
  proof (cases e)
    case (Change v)
    then show ?thesis using Cons.IH [OF Cons.prems, of "s\<lparr>value_s := v\<rparr>"]
      by (simp only: run_Cons_fst fire.simps handleChange_fst) simp
  next
    case Blur
    then show ?thesis using Cons.IH [OF Cons.prems, of s] Cons.prems
      by (simp only: run_Cons_fst fire.simps handleBlur_fst) simp
  qed
qed

lemma run_validatorRuns:
  "validatorRuns (snd (run p es s)) =
     (case validate p of None \<Rightarrow> [] | Some f \<Rightarrow> blurValues (value_s s) es)"
proof (induction es arbitrary: s)
  case Nil
  show ?case by (simp split: option.splits)
next
  case (Cons e es)
  show ?case
  proof (cases e)
    case (Change v)
    then show ?thesis using Cons.IH [of "s\<lparr>value_s := v\<rparr>"]
      by (simp only: run_Cons_snd run_Cons_fst fire.simps handleChange_fst handleChange_snd
            validatorRuns_append)
         (simp split: option.splits)
  next
    case Blur
    then show ?thesis using Cons.IH [of "fst (handleBlur p s)"]
      by (simp only: run_Cons_snd run_Cons_fst fire.simps handleBlur_snd validatorRuns_append)
         (simp add: handleBlur_fst split: option.splits)
  qed
qed

lemma run_onChangeCalls:
  "onChangeCalls (snd (run p es s)) = (if onChange p then changedValues es else [])"
proof (induction es arbitrary: s)
  case Nil
  show ?case by simp
next
  case (Cons e es)
  show ?case
  proof (cases e)
    case (Change v)
    then show ?thesis using Cons.IH [of "fst (handleChange p v s)"]
      by (simp only: run_Cons_snd run_Cons_fst fire.simps handleChange_snd onChangeCalls_append)
         simp
  next
    case Blur
    then show ?thesis using Cons.IH [of "fst (handleBlur p s)"]
      by (simp only: run_Cons_snd run_Cons_fst fire.simps handleBlur_snd onChangeCalls_append)
         (simp split: option.splits)
  qed
qed

lemma run_blurs_after_blur:
  "fst (run p (replicate n Blur) (fst (handleBlur p s))) = fst (handleBlur p s)"
proof (induction n)
  case 0
  show ?case by simp
next
  case (Suc n)
  have "fst (handleBlur p (fst (handleBlur p s))) = fst (handleBlur p s)"
    by (simp add: handleBlur_def split: option.splits)
  then show ?case using Suc.IH
    by (simp only: replicate_Suc run_Cons_fst fire.simps)
qed

text \<open>
  C6. On every value-change event the \<open>onChange\<close> callback the field was given is
  invoked with the new value, once, whatever the validator and whatever the value: the
  handler's calls are that one call, and over any list of events the values passed to
  \<open>onChange\<close> are the changed values, in order.
\<close>

theorem handleChange_invokes_onChange:
  assumes "onChange p"
  shows "snd (handleChange p newValue s) = [Call_onChange newValue]
       \<and> onChangeCalls (snd (run p es s)) = changedValues es"
proof -
  have one: "snd (handleChange p newValue s) = [Call_onChange newValue]"
    using assms by (simp add: handleChange_snd)
  have all: "onChangeCalls (snd (run p es s)) = changedValues es"
    using assms by (simp add: run_onChangeCalls)
  show ?thesis using one all by simp
qed

theorem handleChange_invokes_onChange_witness:
  "onChange zipProps
   \<and> snd (handleChange zipProps ''12345'' (mount zipProps)) = [Call_onChange ''12345'']
   \<and> onChangeCalls (snd (run zipProps [Change ''1'', Blur, Change ''12''] (mount zipProps)))
       = [''1'', ''12'']"
proof -
  have h: "onChange zipProps" by (simp add: zipProps_def)
  show ?thesis
    using h handleChange_invokes_onChange
      [OF h, of "''12345''" "mount zipProps" "[Change ''1'', Blur, Change ''12'']"]
    by simp
qed

text \<open>
  C8. A value-change event leaves the error cell as it was; and after any list of
  events since mount the error cell of a field with a validator holds the validator's
  result on the value the field held at the most recent blur, or \<open>null\<close> when no
  blur has occurred (and \<open>null\<close> throughout when no validator was given). What is
  displayed is read off the error cell, so an edit after a blur neither clears nor
  updates it.
\<close>

theorem error_is_validation_at_last_blur:
  "error_s (fst (handleChange p v s)) = error_s s
   \<and> error_s (fst (run p es (mount p))) =
       (case validate p of
          None \<Rightarrow> None
        | Some f \<Rightarrow>
            (case valueAtLastBlur (value_s (mount p)) None es of
               None \<Rightarrow> None | Some b \<Rightarrow> f b))"
proof -
  have m: "error_s (mount p) = None" by (simp add: mount_def)
  show ?thesis
  proof (cases "validate p")
    case None
    then show ?thesis using m run_error_no_validator [OF None, of es "mount p"]
      by (simp add: handleChange_fst)
  next
    case (Some f)
    then show ?thesis using m run_error [OF Some, of es "mount p"]
      by (simp add: handleChange_fst split: option.splits)
  qed
qed

theorem error_is_validation_at_last_blur_witness:
  "error_s (fst (handleChange usernameProps ''abcdefg''
        (fst (run usernameProps [Change ''abc'', Blur] (mount usernameProps)))))
       = Some ''Username must be at least 7 characters long''
   \<and> error_s (fst (run usernameProps [Change ''abc'', Blur, Change ''abcdefg'']
        (mount usernameProps)))
       = Some ''Username must be at least 7 characters long''"
proof -
  have h: "validate usernameProps = Some validateUsername" by (simp add: usernameProps_def)
  have e: "error_s (fst (run usernameProps [Change ''abc'', Blur] (mount usernameProps)))
      = Some ''Username must be at least 7 characters long''"
    by (simp add: usernameProps_def mount_def handleChange_def handleBlur_def
        validateUsername_def)
  have a: "valueAtLastBlur (value_s (mount usernameProps)) None
      [Change ''abc'', Blur, Change ''abcdefg''] = Some ''abc''"
    by simp
  have b: "validateUsername ''abc'' = Some ''Username must be at least 7 characters long''"
    by (simp add: validateUsername_def)
  show ?thesis
    using h e a b error_is_validation_at_last_blur
      [of usernameProps "''abcdefg''"
        "fst (run usernameProps [Change ''abc'', Blur] (mount usernameProps))"
        "[Change ''abc'', Blur, Change ''abcdefg'']"]
    by simp
qed

text \<open>
  C1, as stated, fails. The claim has every value-change event re-run the validator on
  the new value and report a changed result through a validity-changed callback, twice
  over \<open>''\<close>, \<open>'1'\<close>, ..., \<open>'12345'\<close>. In InputField the verdict does change
  from \<open>''\<close> to \<open>'1'\<close>, yet the change handler runs no validator; and over the whole
  sequence every call the field makes is a call of \<open>onChange\<close>: the validator is
  never run and nothing reports a verdict.
\<close>

theorem change_runs_no_validator_counterexample:
  "zipValidate ''1'' \<noteq> zipValidate []
   \<and> validatorRuns (snd (handleChange zipProps ''1'' (mount zipProps))) = []
   \<and> snd (run zipProps
        [Change ''1'', Change ''12'', Change ''123'', Change ''1234'', Change ''12345'']
        (mount zipProps))
       = [Call_onChange ''1'', Call_onChange ''12'', Call_onChange ''123'',
          Call_onChange ''1234'', Call_onChange ''12345'']"
  by (simp add: zipValidate_def zipProps_def mount_def handleChange_def)

text \<open>
  C1, amended. A value-change event stores the new value and runs no validator. The
  validator runs on blur only: over any list of events, the values it is run on are
  the values the field holds at its blur events, in order (none when no validator was
  given); and a blur stores the validator's result as the error, with no comparison
  to the result before.
\<close>

theorem validator_runs_only_on_blur:
  "fst (handleChange p v s) = s\<lparr>value_s := v\<rparr>
   \<and> validatorRuns (snd (handleChange p v s)) = []
   \<and> validatorRuns (snd (run p es s)) =
       (case validate p of None \<Rightarrow> [] | Some f \<Rightarrow> blurValues (value_s s) es)
   \<and> fst (handleBlur p s) =
       (case validate p of None \<Rightarrow> s | Some f \<Rightarrow> s\<lparr>error_s := f (value_s s)\<rparr>)"
proof -
  have stored: "fst (handleChange p v s) = s\<lparr>value_s := v\<rparr>"
    by (rule handleChange_fst)
  have none: "validatorRuns (snd (handleChange p v s)) = []"
    by (simp add: handleChange_snd)
  have blurs: "validatorRuns (snd (run p es s)) =
       (case validate p of None \<Rightarrow> [] | Some f \<Rightarrow> blurValues (value_s s) es)"
    by (rule run_validatorRuns)
  have blur: "fst (handleBlur p s) =
       (case validate p of None \<Rightarrow> s | Some f \<Rightarrow> s\<lparr>error_s := f (value_s s)\<rparr>)"
    by (rule handleBlur_fst)
  show ?thesis using stored none blurs blur by simp
qed

theorem validator_runs_only_on_blur_witness:
  "fst (handleChange zipProps ''1'' (mount zipProps)) = (mount zipProps)\<lparr>value_s := ''1''\<rparr>
   \<and> validatorRuns (snd (handleChange zipProps ''1'' (mount zipProps))) = []
   \<and> validatorRuns (snd (run zipProps
        [Change ''1'', Change ''12'', Blur, Change ''123'', Blur] (mount zipProps)))
       = [''12'', ''123'']
   \<and> fst (handleBlur zipProps (mount zipProps))
       = (mount zipProps)\<lparr>error_s := Some ''Required''\<rparr>"
  using validator_runs_only_on_blur [of zipProps "''1''" "mount zipProps"
      "[Change ''1'', Change ''12'', Blur, Change ''123'', Blur]"]
  by (simp add: zipProps_def mount_def zipValidate_def)

text \<open>
  C2, as stated, fails. A field mounted with the initial value \<open>'abc'\<close> and the
  username validator has never changed its value; the validator rejects \<open>'abc'\<close>,
  and a blur makes the message visible.
\<close>

theorem blur_on_unchanged_field_counterexample:
  "validateUsername ''abc'' = Some ''Username must be at least 7 characters long''
   \<and> shownError (fst (handleBlur
        \<lparr>validate = Some validateUsername, initialValue = Some ''abc'', onChange = False\<rparr>
        (mount
          \<lparr>validate = Some validateUsername, initialValue = Some ''abc'', onChange = False\<rparr>)))
       = Some ''Username must be at least 7 characters long''"
  by (simp add: validateUsername_def shownError_def handleBlur_def mount_def)

text \<open>
  C2, amended. InputField keeps no \<open>touched\<close> flag. After one or more blur events and
  no value change since mount, the field shows what its validator says of the initial
  value: the message when it returns a non-empty one, and nothing when it returns
  \<open>null\<close> or \<open>''\<close> or when no validator was given.
\<close>

theorem blur_shows_validation_of_unchanged_value:
  "shownError (fst (run p (replicate (Suc n) Blur) (mount p))) =
     (case validate p of
        None \<Rightarrow> None
      | Some f \<Rightarrow>
          (case f (value_s (mount p)) of
             None \<Rightarrow> None
           | Some m \<Rightarrow> if m = [] then None else Some m))"
proof -
  have "fst (run p (replicate (Suc n) Blur) (mount p)) = fst (handleBlur p (mount p))"
    by (simp only: replicate_Suc run_Cons_fst fire.simps run_blurs_after_blur)
  then show ?thesis
    by (simp add: shownError_def handleBlur_fst mount_def split: option.splits)
qed

theorem blur_shows_validation_of_unchanged_value_witness:
  "shownError (fst (run usernameProps (replicate (Suc 1) Blur) (mount usernameProps))) = None
   \<and> shownError (fst (run (usernameProps\<lparr>initialValue := Some ''abc''\<rparr>)
        (replicate (Suc 1) Blur) (mount (usernameProps\<lparr>initialValue := Some ''abc''\<rparr>))))
       = Some ''Username must be at least 7 characters long''"
  using blur_shows_validation_of_unchanged_value [of usernameProps 1]
    blur_shows_validation_of_unchanged_value
      [of "usernameProps\<lparr>initialValue := Some ''abc''\<rparr>" 1]
  by (simp add: usernameProps_def mount_def validateUsername_def)

section \<open>Properties of the forms\<close>

lemma run_Old_Cons_fst: "fst (run_Old (e # es) s) = fst (run_Old es (fst (fire_Old e s)))"
  by (simp split: prod.splits)

lemma run_New_Cons_fst: "fst (run_New (e # es) s) = fst (run_New es (fst (fire_New e s)))"
  by (simp split: prod.splits)

lemma OldForm_inv_init: "OldForm_inv OldForm_init"
  by (simp add: OldForm_inv_def OldForm_init_def)

lemma OldForm_inv_handleUsernameChange:
  "OldForm_inv s \<Longrightarrow> OldForm_inv (handleUsernameChange v s)"
  by (simp add: OldForm_inv_def handleUsernameChange_def validateUsername_Old_def)

lemma OldForm_inv_handlePasswordChange:
  "OldForm_inv s \<Longrightarrow> OldForm_inv (handlePasswordChange v s)"
  by (auto simp add: OldForm_inv_def handlePasswordChange_def validatePassword_Old_def Let_def)

text \<open>The blur handlers would keep the invariant too, were they attached.\<close>

lemma OldForm_inv_blur:
  "OldForm_inv s \<Longrightarrow> OldForm_inv (handleUsernameBlur s) \<and> OldForm_inv (handlePasswordBlur s)"
  by (auto simp add: OldForm_inv_def handleUsernameBlur_def handlePasswordBlur_def
      validateUsername_Old_def validatePassword_Old_def)

lemma OldForm_inv_handleSubmit:
  "OldForm_inv s \<Longrightarrow> OldForm_inv (fst (handleSubmit_Old s))"
  by (auto simp add: OldForm_inv_def handleSubmit_Old_def validateUsername_Old_def
      validatePassword_Old_def Let_def)

lemma OldForm_inv_fire: "OldForm_inv s \<Longrightarrow> OldForm_inv (fst (fire_Old e s))"
  by (cases e)
     (simp_all add: OldForm_inv_handleUsernameChange OldForm_inv_handlePasswordChange
        OldForm_inv_handleSubmit)

lemma OldForm_inv_run: "OldForm_inv s \<Longrightarrow> OldForm_inv (fst (run_Old es s))"
proof (induction es arbitrary: s)
  case Nil
  then show ?case by simp
next
  case (Cons e es)
  then show ?case
    by (simp only: run_Old_Cons_fst OldForm_inv_fire)
qed

lemma OldForm_inv_reachable: "OldForm_inv (fst (run_Old es OldForm_init))"
  by (rule OldForm_inv_run [OF OldForm_inv_init])

text \<open>Between events the guard of the submit handler is decided by the two lengths.\<close>

lemma guard_reachable:
  assumes "OldForm_inv t"
  shows "(usernameError t \<noteq> [] \<or> passwordError t \<noteq> []
         \<or> length (username t) < 7 \<or> length (password t) < 8)
       = (length (username t) < 7 \<or> length (password t) < 8)"
  using assms by (auto simp add: OldForm_inv_def split: if_splits)

lemma run_New_without_submit:
  "fst (run_New es s) = fst (run_New (filter (\<lambda>e. e \<noteq> SubmitEvent) es) s)"
proof (induction es arbitrary: s)
  case Nil
  show ?case by simp
next
  case (Cons e es)
  show ?case
  proof (cases "e = SubmitEvent")
    case True
    then show ?thesis using Cons.IH [of s]
      by (simp add: run_New_Cons_fst handleSubmit_New_def del: run_New.simps)
  next
    case False
    then show ?thesis using Cons.IH [of "fst (fire_New e s)"]
      by (simp add: run_New_Cons_fst del: run_New.simps)
  qed
qed

lemma dataSubmits_append: "dataSubmits (xs @ ys) = dataSubmits xs @ dataSubmits ys"
  by (induction xs rule: dataSubmits.induct) auto

lemma dataSubmits_fanOut: "dataSubmits (fanOut api gs) = []"
  by (induction api gs rule: fanOut.induct) (auto simp add: dataSubmits_append)

text \<open>
  C9. In OldForm a rejected submission is atomic. In any state \<open>t\<close> the form reaches
  from its initial state, when the username has fewer than 7 characters or the
  password fewer than 8, \<open>handleSubmit\<close> logs nothing and returns with the state as
  it was but for the password error, which holds the fresh verdict on the password;
  a message that was showing is never cleared, and both values are unchanged. When
  the username has at least 7 and the password at least 8 characters, the pair is
  logged and all four cells are reset to the empty string.
\<close>

theorem rejected_submission_is_atomic:
  assumes "t = fst (run_Old es OldForm_init)"
  shows "(length (username t) < 7 \<or> length (password t) < 8 \<longrightarrow>
            snd (handleSubmit_Old t) = [PreventDefault]
          \<and> fst (handleSubmit_Old t) =
              t\<lparr>passwordError :=
                  (if length (password t) > 0 \<and> length (password t) < 8
                   then ''Password must be at least 8 characters long'' else [])\<rparr>
          \<and> (passwordError t \<noteq> [] \<longrightarrow> fst (handleSubmit_Old t) = t))
       \<and> (7 \<le> length (username t) \<and> 8 \<le> length (password t) \<longrightarrow>
            snd (handleSubmit_Old t)
              = [PreventDefault, ConsoleLog [Str (username t), Str (password t)]]
          \<and> fst (handleSubmit_Old t) = OldForm_init)"
proof -
  have inv: "OldForm_inv t" using assms OldForm_inv_reachable by simp
  show ?thesis
    using inv
    by (auto simp add: OldForm_inv_def handleSubmit_Old_def validateUsername_Old_def
        validatePassword_Old_def Let_def OldForm_init_def split: if_splits)
qed

theorem rejected_submission_is_atomic_witness:
  "fst (run_Old [UsernameChange ''abc'', PasswordChange ''longpassword''] OldForm_init)
     = \<lparr>username = ''abc'', password = ''longpassword'',
        usernameError = ''Username must be at least 7 characters long'', passwordError = []\<rparr>
   \<and> snd (handleSubmit_Old
        \<lparr>username = ''abc'', password = ''longpassword'',
         usernameError = ''Username must be at least 7 characters long'', passwordError = []\<rparr>)
       = [PreventDefault]
   \<and> fst (handleSubmit_Old
        \<lparr>username = ''abc'', password = ''longpassword'',
         usernameError = ''Username must be at least 7 characters long'', passwordError = []\<rparr>)
       = \<lparr>username = ''abc'', password = ''longpassword'',
          usernameError = ''Username must be at least 7 characters long'', passwordError = []\<rparr>"
proof -
  have r: "fst (run_Old [UsernameChange ''abc'', PasswordChange ''longpassword''] OldForm_init)
     = \<lparr>username = ''abc'', password = ''longpassword'',
        usernameError = ''Username must be at least 7 characters long'', passwordError = []\<rparr>"
    by (simp add: OldForm_init_def handleUsernameChange_def handlePasswordChange_def
        validateUsername_Old_def)
  show ?thesis
    using r rejected_submission_is_atomic [OF r [symmetric]]
    by simp
qed

text \<open>
  C3, as stated, fails. A form whose username field is mounted with the initial value
  \<open>'abc'\<close> holds a pristine field that fails its validator; after a submission with
  no prior event the field shows no error.
\<close>

theorem submit_pristine_invalid_field_counterexample:
  "validateUsername ''abc'' = Some ''Username must be at least 7 characters long''
   \<and> shownError (usernameField (fst (handleSubmit_New
        \<lparr>usernameField = mount (usernameProps\<lparr>initialValue := Some ''abc''\<rparr>),
         passwordField = mount passwordProps\<rparr>)))
       = None"
  by (simp add: validateUsername_def shownError_def handleSubmit_New_def mount_def)

text \<open>
  C3, amended. A submission of NewForm writes no field: the state of the fields after
  it is the state before it, and over any list of events the fields end as they would
  with the submissions left out. So a pristine field shows no error after a
  submission, whatever its value and validator; only a blur makes an error visible.
\<close>

theorem submit_leaves_fields_unchanged:
  "fst (handleSubmit_New s) = s
   \<and> fst (run_New es s) = fst (run_New (filter (\<lambda>e. e \<noteq> SubmitEvent) es) s)
   \<and> shownError (usernameField (fst (handleSubmit_New
        \<lparr>usernameField = mount pu, passwordField = mount pp\<rparr>))) = None
   \<and> shownError (passwordField (fst (handleSubmit_New
        \<lparr>usernameField = mount pu, passwordField = mount pp\<rparr>))) = None"
  using run_New_without_submit [of es s]
  by (simp add: handleSubmit_New_def shownError_def mount_def)

theorem submit_leaves_fields_unchanged_witness:
  "fst (handleSubmit_New NewForm_mount) = NewForm_mount
   \<and> fst (run_New [SubmitEvent, UsernameEvent (Change ''abc''), SubmitEvent] NewForm_mount)
       = fst (run_New [UsernameEvent (Change ''abc'')] NewForm_mount)
   \<and> shownError (usernameField (fst (handleSubmit_New
        \<lparr>usernameField = mount (usernameProps\<lparr>initialValue := Some ''abc''\<rparr>),
         passwordField = mount passwordProps\<rparr>))) = None
   \<and> shownError (passwordField (fst (handleSubmit_New
        \<lparr>usernameField = mount (usernameProps\<lparr>initialValue := Some ''abc''\<rparr>),
         passwordField = mount passwordProps\<rparr>))) = None"
  using submit_leaves_fields_unchanged [of NewForm_mount
      "[SubmitEvent, UsernameEvent (Change ''abc''), SubmitEvent]"
      "usernameProps\<lparr>initialValue := Some ''abc''\<rparr>" passwordProps]
  by simp

text \<open>
  C4, as stated, fails. The submit handler of OldForm blocks the submission itself: on
  the untouched form, and after the username \<open>'abc'\<close> and a long enough password
  were typed, the handler returns without passing the data on.
\<close>

theorem OldForm_blocks_submission_counterexample:
  "snd (handleSubmit_Old OldForm_init) = [PreventDefault]
   \<and> snd (run_Old [UsernameChange ''abc'', PasswordChange ''longpassword'', Submit] OldForm_init)
       = [PreventDefault]"
  by (simp add: OldForm_init_def handleSubmit_Old_def handleUsernameChange_def
      handlePasswordChange_def validateUsername_Old_def validatePassword_Old_def)

text \<open>
  C4, amended. The \<open>handleSubmit\<close> of the form template in README.md calls
  \<open>onDataSubmit\<close> once on every submission event, with the validation result, the
  form values and the event, whether or not there are failures. The submit handler of
  NewForm never blocks either: on every submission it suppresses the default and
  passes the full form data on (to \<open>console.log\<close>); it runs no validation, so it
  passes no validation result. The submit handler of OldForm gates the submission
  itself: in any state the form reaches, it passes the username and password on
  exactly when the username has at least 7 and the password at least 8 characters,
  and otherwise only suppresses the default.
\<close>

theorem submit_handlers_gating:
  assumes "t = fst (run_Old es OldForm_init)"
  shows "dataSubmits (snd (handleSubmit_template validateForm groupedEntries ev f))
         = [(validateForm (formValues f), formValues f, ev)]
       \<and> snd (handleSubmit_New s)
         = [PreventDefault,
            ConsoleLog [Str ''Form submitted with data:'',
                        Obj [(''username'', value_s (usernameField s)),
                             (''password'', value_s (passwordField s))]]]
       \<and> snd (handleSubmit_Old t)
         = (if length (username t) < 7 \<or> length (password t) < 8
            then [PreventDefault]
            else [PreventDefault, ConsoleLog [Str (username t), Str (password t)]])"
proof -
  have inv: "OldForm_inv t" using assms OldForm_inv_reachable by simp
  have d: "dataSubmits (snd (handleSubmit_template validateForm groupedEntries ev f))
         = [(validateForm (formValues f), formValues f, ev)]"
    by (simp add: handleSubmit_template_def Let_def dataSubmits_append dataSubmits_fanOut)
  show ?thesis
    using guard_reachable [OF inv] d
    by (simp add: handleSubmit_New_def handleSubmit_Old_def Let_def)
qed

theorem submit_handlers_gating_witness:
  "dataSubmits (snd (handleSubmit_template
        (\<lambda>vals. [\<lparr>reason = ''Required'', error = None, meta = [''field'' \<mapsto> ''field1'']\<rparr>])
        (\<lambda>fs. [(''field1'', fs)])
        ''submit''
        \<lparr>formValues = Map.empty, formErrorsRaw = [], isSubmitting = False,
         wasSubmitted = False, formApi = (\<lambda>field. True)\<rparr>))
     = [([\<lparr>reason = ''Required'', error = None, meta = [''field'' \<mapsto> ''field1'']\<rparr>],
         Map.empty, ''submit'')]
   \<and> snd (handleSubmit_New NewForm_mount)
     = [PreventDefault,
        ConsoleLog [Str ''Form submitted with data:'',
                    Obj [(''username'', []), (''password'', [])]]]
   \<and> snd (handleSubmit_Old
        (fst (run_Old [UsernameChange ''bertrand'', PasswordChange ''longpassword'']
           OldForm_init)))
     = [PreventDefault, ConsoleLog [Str ''bertrand'', Str ''longpassword'']]"
proof -
  have r: "fst (run_Old [UsernameChange ''bertrand'', PasswordChange ''longpassword'']
        OldForm_init)
     = \<lparr>username = ''bertrand'', password = ''longpassword'',
        usernameError = [], passwordError = []\<rparr>"
    by (simp add: OldForm_init_def handleUsernameChange_def handlePasswordChange_def
        validateUsername_Old_def)
  show ?thesis
    using r submit_handlers_gating [OF refl,
        of "\<lambda>vals. [\<lparr>reason = ''Required'', error = None, meta = [''field'' \<mapsto> ''field1'']\<rparr>]"
        "\<lambda>fs. [(''field1'', fs)]"
        "''submit''"
        "\<lparr>formValues = Map.empty, formErrorsRaw = [], isSubmitting = False,
          wasSubmitted = False, formApi = (\<lambda>field. True)\<rparr>"
        NewForm_mount
        "[UsernameChange ''bertrand'', PasswordChange ''longpassword'']"]
    by (simp add: NewForm_mount_def mount_def usernameProps_def passwordProps_def)
qed

section \<open>Properties of combineValidators\<close>

lemma runFieldValidators_concat:
  "runFieldValidators vm r = concat (map (\<lambda>(k, V). map (stamp k) (V (r k))) vm)"
  by (induction vm r rule: runFieldValidators.induct) auto

lemma stamp_field: "meta (stamp k f) ''field'' = Some k"
  by (simp add: stamp_def)

lemma filter_stamped_same:
  "filter (\<lambda>f. meta f ''field'' = Some k) (map (stamp k) fs) = map (stamp k) fs"
  by (induction fs) (auto simp add: stamp_field)

lemma filter_stamped_other:
  "k \<noteq> k' \<Longrightarrow> filter (\<lambda>f. meta f ''field'' = Some k) (map (stamp k') fs) = []"
  by (induction fs) (auto simp add: stamp_field)

lemma filter_runFieldValidators_absent:
  "k \<notin> fst ` set vm \<Longrightarrow>
   filter (\<lambda>f. meta f ''field'' = Some k) (runFieldValidators vm r) = []"
proof (induction vm r rule: runFieldValidators.induct)
  case (1 r)
  show ?case by simp
next
  case (2 key V kvs r)
  then show ?case by (simp add: filter_stamped_other)
qed

text \<open>Grouping the combined result by \<open>meta.field\<close> gives back each key's own failures.\<close>

lemma filter_runFieldValidators:
  "distinct (map fst vm) \<Longrightarrow> (k, V) \<in> set vm \<Longrightarrow>
   filter (\<lambda>f. meta f ''field'' = Some k) (runFieldValidators vm r) = map (stamp k) (V (r k))"
proof (induction vm r rule: runFieldValidators.induct)
  case (1 r)
  then show ?case by simp
next
  case (2 key W kvs r)
  show ?case
  proof (cases "k = key")
    case True
    then have "V = W" using "2.prems" by (auto simp add: rev_image_eqI)
    moreover have "key \<notin> fst ` set kvs" using "2.prems" by simp
    ultimately show ?thesis using True
      by (simp add: filter_stamped_same filter_runFieldValidators_absent)
  next
    case False
    then have "(k, V) \<in> set kvs" using "2.prems" by auto
    then show ?thesis using False "2.IH" "2.prems"
      by (simp add: filter_stamped_other)
  qed
qed

lemma runFieldValidators_field:
  "f \<in> set (runFieldValidators vm r) \<Longrightarrow> \<exists>k \<in> fst ` set vm. meta f ''field'' = Some k"
proof (induction vm r rule: runFieldValidators.induct)
  case (1 r)
  then show ?case by simp
next
  case (2 key V kvs r)
  then show ?case by (auto simp add: stamp_field)
qed

text \<open>
  C7. For every map from record keys to Validators (keys distinct, in declared order),
  the Validator that \<open>combineValidators\<close> returns, applied to a record, gives the
  failures of each key's Validator on that key's value, concatenated in the map's key
  order, each stamped with \<open>meta.field\<close> equal to its source key; every failure
  carries the key of the map it came from, and the failures carrying a key are that
  key's own; and every per-key Validator is still exposed under its key. On
  \<open>{a: Va, b: Vb}\<close> and \<open>{a: x, b: y}\<close>, where \<open>Va\<close> reports one failure on \<open>x\<close>
  and \<open>Vb\<close> none on \<open>y\<close>, the result is exactly that one failure, with
  \<open>meta.field = 'a'\<close>, and \<open>Va\<close> and \<open>Vb\<close> are exposed.
\<close>

theorem combineValidators_runs_and_stamps:
  assumes "distinct (map fst vm)"
  shows "validateRecord (combineValidators vm) r
           = concat (map (\<lambda>(k, V). map (stamp k) (V (r k))) vm)
       \<and> (\<forall>f \<in> set (validateRecord (combineValidators vm) r).
             \<exists>k \<in> fst ` set vm. meta f ''field'' = Some k)
       \<and> (\<forall>(k, V) \<in> set vm.
             fieldValidator (combineValidators vm) k = Some V
           \<and> filter (\<lambda>f. meta f ''field'' = Some k) (validateRecord (combineValidators vm) r)
               = map (stamp k) (V (r k)))
       \<and> (Va (Some x) = [fa] \<and> Vb (Some y) = [] \<longrightarrow>
            validateRecord (combineValidators [(''a'', Va), (''b'', Vb)])
                [''a'' \<mapsto> x, ''b'' \<mapsto> y] = [stamp ''a'' fa]
          \<and> meta (stamp ''a'' fa) ''field'' = Some ''a''
          \<and> fieldValidator (combineValidators [(''a'', Va), (''b'', Vb)]) ''a'' = Some Va
          \<and> fieldValidator (combineValidators [(''a'', Va), (''b'', Vb)]) ''b'' = Some Vb)"
proof -
  have c: "validateRecord (combineValidators vm) r
           = concat (map (\<lambda>(k, V). map (stamp k) (V (r k))) vm)"
    by (simp add: combineValidators_def runFieldValidators_concat)
  have m: "\<forall>f \<in> set (validateRecord (combineValidators vm) r).
             \<exists>k \<in> fst ` set vm. meta f ''field'' = Some k"
    using runFieldValidators_field [of _ vm r] by (simp add: combineValidators_def)
  have e: "\<forall>(k, V) \<in> set vm.
             fieldValidator (combineValidators vm) k = Some V
           \<and> filter (\<lambda>f. meta f ''field'' = Some k) (validateRecord (combineValidators vm) r)
               = map (stamp k) (V (r k))"
    using assms filter_runFieldValidators [OF assms, of _ _ r]
    by (auto simp add: combineValidators_def fieldValidator_def)
  have x: "Va (Some x) = [fa] \<and> Vb (Some y) = [] \<longrightarrow>
            validateRecord (combineValidators [(''a'', Va), (''b'', Vb)])
                [''a'' \<mapsto> x, ''b'' \<mapsto> y] = [stamp ''a'' fa]
          \<and> meta (stamp ''a'' fa) ''field'' = Some ''a''
          \<and> fieldValidator (combineValidators [(''a'', Va), (''b'', Vb)]) ''a'' = Some Va
          \<and> fieldValidator (combineValidators [(''a'', Va), (''b'', Vb)]) ''b'' = Some Vb"
    by (simp add: combineValidators_def fieldValidator_def stamp_field)
  show ?thesis using c m e x by blast
qed

theorem combineValidators_runs_and_stamps_witness:
  "distinct (map fst [(''a'', exampleVa), (''b'', exampleVb)])
   \<and> exampleVa (Some ''x'') = [\<lparr>reason = ''a is not valid'', error = None, meta = Map.empty\<rparr>]
   \<and> exampleVb (Some ''y'') = []
   \<and> validateRecord (combineValidators [(''a'', exampleVa), (''b'', exampleVb)])
        [''a'' \<mapsto> ''x'', ''b'' \<mapsto> ''y'']
       = [\<lparr>reason = ''a is not valid'', error = None, meta = [''field'' \<mapsto> ''a'']\<rparr>]
   \<and> fieldValidator (combineValidators [(''a'', exampleVa), (''b'', exampleVb)]) ''a''
       = Some exampleVa
   \<and> fieldValidator (combineValidators [(''a'', exampleVa), (''b'', exampleVb)]) ''b''
       = Some exampleVb"
proof -
  have d: "distinct (map fst [(''a'', exampleVa), (''b'', exampleVb)])" by simp
  have a: "exampleVa (Some ''x'')
      = [\<lparr>reason = ''a is not valid'', error = None, meta = Map.empty\<rparr>]"
    by (simp add: exampleVa_def)
  have b: "exampleVb (Some ''y'') = []" by (simp add: exampleVb_def)
  show ?thesis
    using d a b combineValidators_runs_and_stamps
      [OF d, of "[''a'' \<mapsto> ''x'', ''b'' \<mapsto> ''y'']" exampleVa "''x''"
        "\<lparr>reason = ''a is not valid'', error = None, meta = Map.empty\<rparr>" exampleVb "''y''"]
    by (simp add: stamp_def)
qed

end
